theory Spec2Isabelle
  imports Main "HOL-Library.Word" "HOL-Library.Monad_Syntax"
begin

unbundle bit_operations_syntax

section \<open>Go values used by the codec\<close>

text \<open>
  A Go \<open>byte\<close> is an 8-bit word and a \<open>uint16\<close> a 16-bit word. A Go \<open>string\<close> is an
  immutable sequence of bytes; it is modelled as a HOL \<open>string\<close>, whose characters are
  exactly the 256 byte values. \<open>bytes_of_string\<close> is the conversion \<open>[]byte(s)\<close> and
  \<open>string_of_bytes\<close> the conversion \<open>string(b)\<close>; \<open>length\<close> is Go's \<open>len\<close> on both.
\<close>

type_synonym byte = "8 word"
type_synonym uint16 = "16 word"

definition byte_of_char :: "char \<Rightarrow> byte" where
  "byte_of_char c = of_char c"

definition char_of_byte :: "byte \<Rightarrow> char" where
  "char_of_byte b = char_of (unat b)"

definition bytes_of_string :: "string \<Rightarrow> byte list" where
  "bytes_of_string s = map byte_of_char s"

definition string_of_bytes :: "byte list \<Rightarrow> string" where
  "string_of_bytes b = map char_of_byte b"

text \<open>
  Slicing and indexing panic in Go when out of range. A panic is the value \<open>None\<close>:
  \<open>slice_from b n\<close> is \<open>b[n:]\<close> and \<open>slice_to s n\<close> is \<open>s[:n]\<close>.
\<close>

definition slice_from :: "'a list \<Rightarrow> nat \<Rightarrow> 'a list option" where
  "slice_from b n = (if length b < n then None else Some (drop n b))"

definition slice_to :: "'a list \<Rightarrow> nat \<Rightarrow> 'a list option" where
  "slice_to s n = (if length s < n then None else Some (take n s))"

section \<open>Package errors\<close>

text \<open>
  The Go interface \<open>error\<close> as the sum of the concrete error types the program builds:
  the seven struct types of package \<open>errors\<close>, the sentinel \<open>io.EOF\<close>, and the plain
  message-carrying error that \<open>fmt.Errorf\<close> returns for a format without \<open>%w\<close>
  (it stands for every error value outside the taxonomy).
\<close>

datatype error =
    ErrorFileNotFound (File: string)
  | ErrorAccessViolation
  | ErrorDiskFull
  | ErrorIllegalOperation (Message: string)
  | ErrorUnknownTransferID (TransferID: string)
  | ErrorFileExists (File: string)
  | ErrorNoSuchUser (User: string)
  | EOF
  | errorString string

text \<open>The method \<open>Error()\<close>; \<open>fmt.Sprintf\<close> with one \<open>%s\<close> verb at the end appends its argument.\<close>

fun Error :: "error \<Rightarrow> string" where
  "Error (ErrorFileNotFound file) = ''Error File Not Found - '' @ file"
| "Error ErrorAccessViolation = ''Error Access Violation''"
| "Error ErrorDiskFull = ''Error Disk Full''"
| "Error (ErrorIllegalOperation message) = ''Error Illegal Operation -  '' @ message"
| "Error (ErrorUnknownTransferID transferID) = ''Error Unknown Transfer ID - '' @ transferID"
| "Error (ErrorFileExists file) = ''Error File Exists: '' @ file"
| "Error (ErrorNoSuchUser user) = ''Error No Such User: '' @ user"
| "Error EOF = ''EOF''"
| "Error (errorString s) = s"

definition Errorf :: "string \<Rightarrow> error" where
  "Errorf s = errorString s"

text \<open>The verb \<open>%d\<close> of \<open>fmt.Sprintf\<close> on an unsigned integer: its decimal digits.\<close>

fun Sprintf_d :: "nat \<Rightarrow> string" where
  "Sprintf_d n =
     (if n < 10 then [char_of (48 + n)]
      else Sprintf_d (n div 10) @ [char_of (48 + n mod 10)])"

declare Sprintf_d.simps [simp del]

section \<open>The standard library's byte buffer\<close>

text \<open>
  \<open>bytes.Buffer\<close> and \<open>encoding/binary\<close> belong to Go's standard library, not to this
  repository; they are modelled from their documentation. A buffer is its unread
  contents; every operation takes the buffer and returns its result with the buffer
  after the call. Writes append and always report the full length and a nil error
  (\<open>None\<close>). \<open>ReadString delim\<close> reads up to and including the first \<open>delim\<close>; when there
  is none it returns all that is left together with \<open>io.EOF\<close>.
\<close>

type_synonym Buffer = "byte list"

definition new_Buffer :: Buffer where
  "new_Buffer = []"

definition NewBuffer :: "byte list \<Rightarrow> Buffer" where
  "NewBuffer buf = buf"

definition Bytes :: "Buffer \<Rightarrow> byte list" where
  "Bytes b = b"

definition PutUint16 :: "uint16 \<Rightarrow> byte list" where
  "PutUint16 v = [ucast (drop_bit 8 v), ucast v]"

definition binary_Write :: "Buffer \<Rightarrow> uint16 \<Rightarrow> error option \<times> Buffer" where
  "binary_Write b v = (None, b @ PutUint16 v)"

definition WriteString :: "Buffer \<Rightarrow> string \<Rightarrow> (nat \<times> error option) \<times> Buffer" where
  "WriteString b s = ((length s, None), b @ bytes_of_string s)"

definition WriteByte :: "Buffer \<Rightarrow> byte \<Rightarrow> error option \<times> Buffer" where
  "WriteByte b c = (None, b @ [c])"

definition Write :: "Buffer \<Rightarrow> byte list \<Rightarrow> (nat \<times> error option) \<times> Buffer" where
  "Write b p = ((length p, None), b @ p)"

primrec IndexByte :: "byte list \<Rightarrow> byte \<Rightarrow> nat option" where
  "IndexByte [] c = None"
| "IndexByte (x # xs) c =
     (if x = c then Some 0 else map_option Suc (IndexByte xs c))"

definition ReadString :: "Buffer \<Rightarrow> byte \<Rightarrow> (string \<times> error option) \<times> Buffer" where
  "ReadString b delim =
     (case IndexByte b delim of
        None \<Rightarrow> ((string_of_bytes b, Some EOF), [])
      | Some i \<Rightarrow> ((string_of_bytes (take (i + 1) b), None), drop (i + 1) b))"

text \<open>\<open>binary.BigEndian.Uint16\<close> indexes \<open>b[1]\<close> first and so panics on a shorter slice.\<close>

definition Uint16 :: "byte list \<Rightarrow> uint16 option" where
  "Uint16 b =
     (if length b < 2 then None
      else Some (ucast (b ! 1) OR push_bit 8 (ucast (b ! 0))))"

section \<open>Package packets: the data model\<close>

definition ReadRequestPacketOpcode :: uint16 where "ReadRequestPacketOpcode = 1"
definition WriteRequestPacketOpcode :: uint16 where "WriteRequestPacketOpcode = 2"
definition DataPacketOpcode :: uint16 where "DataPacketOpcode = 3"
definition AckPacketOpcode :: uint16 where "AckPacketOpcode = 4"
definition ErrorPacketOpcode :: uint16 where "ErrorPacketOpcode = 5"

record WriteRequestPacket =
  Filename :: string
  Mode :: string

record ReadRequestPacket =
  Filename :: string
  Mode :: string

record DataPacket =
  BlockNumber :: uint16
  Data :: "byte list"

record ErrorPacket =
  ErrorCode :: uint16
  ErrorMessage :: string

record AckPacket =
  BlockNumber :: uint16

text \<open>The interface \<open>Packet\<close>: a value of one of its five implementing types.\<close>

datatype Packet =
    WRQ WriteRequestPacket
  | RRQ ReadRequestPacket
  | DATA DataPacket
  | ERROR ErrorPacket
  | ACK AckPacket

section \<open>Encoding\<close>

definition WriteRequestPacket_Encode :: "WriteRequestPacket \<Rightarrow> error + byte list" where
  "WriteRequestPacket_Encode w =
     (let buffer = new_Buffer;
          (err, buffer) = binary_Write buffer WriteRequestPacketOpcode
      in case err of Some e \<Rightarrow> Inl e | None \<Rightarrow>
     (let ((l, err), buffer) = WriteString buffer (WriteRequestPacket.Filename w)
      in case err of Some e \<Rightarrow> Inl e | None \<Rightarrow>
     if l \<noteq> length (WriteRequestPacket.Filename w)
     then Inl (Errorf ''Length of filename did not match that written to buffer'')
     else
     (let (err, buffer) = WriteByte buffer 0
      in case err of Some e \<Rightarrow> Inl e | None \<Rightarrow>
     (let ((l, err), buffer) = WriteString buffer (WriteRequestPacket.Mode w)
      in case err of Some e \<Rightarrow> Inl e | None \<Rightarrow>
     if l \<noteq> length (WriteRequestPacket.Mode w)
     then Inl (Errorf ''Length of mode did not match that written to buffer'')
     else
     (let (err, buffer) = WriteByte buffer 0
      in case err of Some e \<Rightarrow> Inl e | None \<Rightarrow>
     Inr (Bytes buffer))))))"

definition ReadRequestPacket_Encode :: "ReadRequestPacket \<Rightarrow> error + byte list" where
  "ReadRequestPacket_Encode r =
     (let buffer = new_Buffer;
          (err, buffer) = binary_Write buffer ReadRequestPacketOpcode
      in case err of Some e \<Rightarrow> Inl e | None \<Rightarrow>
     (let ((l, err), buffer) = WriteString buffer (ReadRequestPacket.Filename r)
      in case err of Some e \<Rightarrow> Inl e | None \<Rightarrow>
     if l \<noteq> length (ReadRequestPacket.Filename r)
     then Inl (Errorf ''Length of filename did not match that written to buffer'')
     else
     (let (err, buffer) = WriteByte buffer 0
      in case err of Some e \<Rightarrow> Inl e | None \<Rightarrow>
     (let ((l, err), buffer) = WriteString buffer (ReadRequestPacket.Mode r)
      in case err of Some e \<Rightarrow> Inl e | None \<Rightarrow>
     if l \<noteq> length (ReadRequestPacket.Mode r)
     then Inl (Errorf ''Length of mode did not match that written to buffer'')
     else
     (let (err, buffer) = WriteByte buffer 0
      in case err of Some e \<Rightarrow> Inl e | None \<Rightarrow>
     Inr (Bytes buffer))))))"

definition DataPacket_Encode :: "DataPacket \<Rightarrow> error + byte list" where
  "DataPacket_Encode d =
     (let buffer = new_Buffer;
          (err, buffer) = binary_Write buffer DataPacketOpcode
      in case err of Some e \<Rightarrow> Inl e | None \<Rightarrow>
     (let (err, buffer) = binary_Write buffer (DataPacket.BlockNumber d)
      in case err of Some e \<Rightarrow> Inl e | None \<Rightarrow>
     (let ((l, err), buffer) = Write buffer (Data d)
      in if l \<noteq> length (Data d)
         then Inl (Errorf ''Length of data did not match that written to buffer'')
         else case err of Some e \<Rightarrow> Inl e | None \<Rightarrow>
     Inr (Bytes buffer))))"

definition AckPacket_Encode :: "AckPacket \<Rightarrow> error + byte list" where
  "AckPacket_Encode a =
     (let buffer = new_Buffer;
          (err, buffer) = binary_Write buffer AckPacketOpcode
      in case err of Some e \<Rightarrow> Inl e | None \<Rightarrow>
     (let (err, buffer) = binary_Write buffer (AckPacket.BlockNumber a)
      in case err of Some e \<Rightarrow> Inl e | None \<Rightarrow>
     Inr (Bytes buffer)))"

definition ErrorPacket_Encode :: "ErrorPacket \<Rightarrow> error + byte list" where
  "ErrorPacket_Encode e =
     (if ErrorCode e > 7 \<or> ErrorCode e < 0 then Inl (Errorf ''Invalid Error Code'')
      else
     (let buffer = new_Buffer;
          (err, buffer) = binary_Write buffer ErrorPacketOpcode
      in case err of Some e' \<Rightarrow> Inl e' | None \<Rightarrow>
     (let (err, buffer) = binary_Write buffer (ErrorCode e)
      in case err of Some e' \<Rightarrow> Inl e' | None \<Rightarrow>
     (let ((l, err), buffer) = WriteString buffer (ErrorMessage e)
      in if l \<noteq> length (ErrorMessage e)
         then Inl (Errorf ''Length of error message does not match that written to buffer'')
         else case err of Some e' \<Rightarrow> Inl e' | None \<Rightarrow>
     (let (err, buffer) = WriteByte buffer 0
      in case err of Some e' \<Rightarrow> Inl e' | None \<Rightarrow>
     Inr (Bytes buffer))))))"

text \<open>The method \<open>Encode\<close> of the interface dispatches on the packet's type.\<close>

fun Encode :: "Packet \<Rightarrow> error + byte list" where
  "Encode (WRQ w) = WriteRequestPacket_Encode w"
| "Encode (RRQ r) = ReadRequestPacket_Encode r"
| "Encode (DATA d) = DataPacket_Encode d"
| "Encode (ERROR e) = ErrorPacket_Encode e"
| "Encode (ACK a) = AckPacket_Encode a"

section \<open>Decoding\<close>

text \<open>
  The decoders return \<open>None\<close> for a run-time panic, \<open>Some (Inl err)\<close> for a returned
  error and \<open>Some (Inr p)\<close> for a decoded packet.
\<close>

definition decodeErrorPacket :: "byte list \<Rightarrow> (error + ErrorPacket) option" where
  "decodeErrorPacket errorData =
     (if length errorData < 5
      then Some (Inl (ErrorIllegalOperation ''Invalid Error packet length - must be 5 bytes''))
      else do {
        tail \<leftarrow> slice_from errorData 2;
        errorCode \<leftarrow> Uint16 tail;
        if errorCode > 8 \<or> errorCode < 0
        then Some (Inl (ErrorIllegalOperation ''Invalid error code - must be between 0 and 7''))
        else
          (let buffer = NewBuffer errorData;
               ((errorMsg, err), buffer) = ReadString buffer 0
           in case err of
                Some e \<Rightarrow>
                  (if e = EOF
                   then Some (Inl (ErrorIllegalOperation ''Error message not 0x0 terminated''))
                   else Some (Inl e))
              | None \<Rightarrow> Some (Inr \<lparr>ErrorCode = errorCode, ErrorMessage = errorMsg\<rparr>))
      })"

definition decodeAckPacket :: "byte list \<Rightarrow> (error + AckPacket) option" where
  "decodeAckPacket ackData =
     (if length ackData \<noteq> 4
      then Some (Inl (ErrorIllegalOperation ''Invalid ACK packet length - must be 4 bytes''))
      else do {
        tail \<leftarrow> slice_from ackData 2;
        blockNumber \<leftarrow> Uint16 tail;
        Some (Inr \<lparr>AckPacket.BlockNumber = blockNumber\<rparr>)
      })"

definition decodeDataPacket :: "byte list \<Rightarrow> (error + DataPacket) option" where
  "decodeDataPacket dataByte =
     (if length dataByte < 4
      then Some (Inl (ErrorIllegalOperation ''Data packet too short''))
      else do {
        tail \<leftarrow> slice_from dataByte 2;
        blockNumber \<leftarrow> Uint16 tail;
        payload \<leftarrow> slice_from dataByte 4;
        Some (Inr \<lparr>DataPacket.BlockNumber = blockNumber, Data = payload\<rparr>)
      })"

text \<open>
  \<open>decodeRequest\<close> trims the terminator with \<open>filename[:len(filename)-1]\<close>; the length
  is at least 2 there, so the subtraction on \<open>nat\<close> is the one on Go's \<open>int\<close>.
\<close>

definition decodeRequest :: "byte list \<Rightarrow> (error + string \<times> string) option" where
  "decodeRequest reqData =
     (if length reqData < 6
      then Some (Inl (ErrorIllegalOperation ''RRQ not long enough''))
      else do {
        tail \<leftarrow> slice_from reqData 2;
        (let buffer = NewBuffer tail;
             ((filename, err), buffer) = ReadString buffer 0
         in case err of
              Some e \<Rightarrow>
                (if e = EOF
                 then Some (Inl (ErrorIllegalOperation ''Non 0x0 terminated Filename''))
                 else Some (Inl e))
            | None \<Rightarrow>
         if length filename < 2
         then Some (Inl (ErrorIllegalOperation ''Blank Filename''))
         else do {
           filename \<leftarrow> slice_to filename (length filename - 1);
           (let ((mode, err), buffer) = ReadString buffer 0
            in case err of
                 Some e \<Rightarrow>
                   (if e = EOF
                    then Some (Inl (ErrorIllegalOperation ''Non 0x0 terminated Mode''))
                    else Some (Inl e))
               | None \<Rightarrow>
            if length mode < 2
            then Some (Inl (ErrorIllegalOperation ''Blank Mode''))
            else do {
              mode \<leftarrow> slice_to mode (length mode - 1);
              Some (Inr (filename, mode))
            })
         })
      })"

definition decodeWriteRequestPacket :: "byte list \<Rightarrow> (error + WriteRequestPacket) option" where
  "decodeWriteRequestPacket readData =
     do {
       r \<leftarrow> decodeRequest readData;
       case r of
         Inl err \<Rightarrow> Some (Inl err)
       | Inr (filename, mode) \<Rightarrow>
           Some (Inr \<lparr>WriteRequestPacket.Filename = filename, WriteRequestPacket.Mode = mode\<rparr>)
     }"

definition decodeReadRequestPacket :: "byte list \<Rightarrow> (error + ReadRequestPacket) option" where
  "decodeReadRequestPacket readData =
     do {
       r \<leftarrow> decodeRequest readData;
       case r of
         Inl err \<Rightarrow> Some (Inl err)
       | Inr (filename, mode) \<Rightarrow>
           Some (Inr \<lparr>ReadRequestPacket.Filename = filename, ReadRequestPacket.Mode = mode\<rparr>)
     }"

definition Decode :: "byte list \<Rightarrow> (error + Packet) option" where
  "Decode packetByte =
     (if length packetByte < 2 then Some (Inl (Errorf ''No data in packet''))
      else do {
        opcode \<leftarrow> Uint16 packetByte;
        if opcode = ReadRequestPacketOpcode
        then map_option (map_sum id RRQ) (decodeReadRequestPacket packetByte)
        else if opcode = WriteRequestPacketOpcode
        then map_option (map_sum id WRQ) (decodeWriteRequestPacket packetByte)
        else if opcode = DataPacketOpcode
        then map_option (map_sum id DATA) (decodeDataPacket packetByte)
        else if opcode = AckPacketOpcode
        then map_option (map_sum id ACK) (decodeAckPacket packetByte)
        else if opcode = ErrorPacketOpcode
        then map_option (map_sum id ERROR) (decodeErrorPacket packetByte)
        else Some (Inl (ErrorIllegalOperation
               (''An illegal operation was attempted: Unknown Opcode - '' @ Sprintf_d (unat opcode))))
      })"

section \<open>Mapping errors to Error packets\<close>

text \<open>
  The argument is an interface value: \<open>None\<close> is the nil interface, which no case of
  the type switch matches, so the default branch calls \<open>Error()\<close> on nil and panics.
\<close>

definition ErrorToPacket :: "error option \<Rightarrow> ErrorPacket option" where
  "ErrorToPacket err =
     (case err of
        Some (ErrorFileNotFound f) \<Rightarrow>
          Some \<lparr>ErrorCode = 1, ErrorMessage = Error (ErrorFileNotFound f)\<rparr>
      | Some ErrorAccessViolation \<Rightarrow>
          Some \<lparr>ErrorCode = 2, ErrorMessage = Error ErrorAccessViolation\<rparr>
      | Some ErrorDiskFull \<Rightarrow>
          Some \<lparr>ErrorCode = 3, ErrorMessage = Error ErrorDiskFull\<rparr>
      | Some (ErrorIllegalOperation m) \<Rightarrow>
          Some \<lparr>ErrorCode = 4, ErrorMessage = Error (ErrorIllegalOperation m)\<rparr>
      | Some (ErrorUnknownTransferID t) \<Rightarrow>
          Some \<lparr>ErrorCode = 5, ErrorMessage = Error (ErrorUnknownTransferID t)\<rparr>
      | Some (ErrorFileExists f) \<Rightarrow>
          Some \<lparr>ErrorCode = 6, ErrorMessage = Error (ErrorFileExists f)\<rparr>
      | Some (ErrorNoSuchUser u) \<Rightarrow>
          Some \<lparr>ErrorCode = 7, ErrorMessage = Error (ErrorNoSuchUser u)\<rparr>
      | Some e \<Rightarrow> Some \<lparr>ErrorCode = 0, ErrorMessage = Error e\<rparr>
      | None \<Rightarrow> None)"

section \<open>NUL-terminated strings\<close>

text \<open>
  The wire format's notion of a string, used to state what the decoders compute:
  \<open>cstring bs\<close> is the NUL-terminated string at the head of \<open>bs\<close> without its terminator
  (the bytes before the first \<open>0x00\<close>), and \<open>after_cstring bs\<close> is what follows that
  terminator. A byte sequence holds a terminator when \<open>0 \<in> set bs\<close>.
\<close>

definition cstring :: "byte list \<Rightarrow> byte list" where
  "cstring bs = takeWhile (\<lambda>x. x \<noteq> 0) bs"

definition after_cstring :: "byte list \<Rightarrow> byte list" where
  "after_cstring bs = tl (dropWhile (\<lambda>x. x \<noteq> 0) bs)"

section \<open>Facts about the modelled library\<close>

lemma unat_byte_of_char: "unat (byte_of_char c) = of_char c"
proof -
  have "(of_char c :: byte) = of_nat (of_char c)"
    by (simp add: of_nat_of_char)
  then have "unat (of_char c :: byte) = (of_char c :: nat) mod 256"
    by (simp add: unat_of_nat)
  then show ?thesis
    by (simp add: byte_of_char_def)
qed

lemma char_of_byte_of_char [simp]: "char_of_byte (byte_of_char c) = c"
  by (simp add: char_of_byte_def unat_byte_of_char)

lemma byte_of_char_of_byte [simp]: "byte_of_char (char_of_byte b) = b"
proof -
  have "(of_char (char_of (unat b)) :: byte) = of_nat (of_char (char_of (unat b)))"
    by (simp only: of_nat_of_char)
  also have "\<dots> = of_nat (unat b mod 256)"
    by simp
  also have "\<dots> = b"
  proof -
    have "unat b < 256"
      using unsigned_less [of b, where ?'a = nat] by simp
    then show ?thesis by simp
  qed
  finally show ?thesis
    by (simp add: char_of_byte_def byte_of_char_def)
qed

lemma byte_of_char_NUL [simp]: "byte_of_char (CHR 0x00) = 0"
  by (simp add: byte_of_char_def)

lemma char_of_byte_0 [simp]: "char_of_byte 0 = CHR 0x00"
  by (simp add: char_of_byte_def char_of_def)

lemma byte_of_char_eq_0 [simp]: "byte_of_char c = 0 \<longleftrightarrow> c = CHR 0x00"
  by (metis byte_of_char_NUL char_of_byte_of_char)

lemma string_of_bytes_of_string [simp]: "string_of_bytes (bytes_of_string s) = s"
  by (simp add: string_of_bytes_def bytes_of_string_def comp_def)

lemma bytes_of_string_of_bytes [simp]: "bytes_of_string (string_of_bytes b) = b"
  by (simp add: string_of_bytes_def bytes_of_string_def comp_def)

lemma NUL_in_bytes_of_string [simp]: "0 \<in> set (bytes_of_string s) \<longleftrightarrow> CHR 0x00 \<in> set s"
  by (auto simp add: bytes_of_string_def)

lemma length_bytes_of_string [simp]: "length (bytes_of_string s) = length s"
  by (simp add: bytes_of_string_def)

lemma length_string_of_bytes [simp]: "length (string_of_bytes b) = length b"
  by (simp add: string_of_bytes_def)

lemma Uint16_PutUint16: "Uint16 (PutUint16 v @ rest) = Some v"
  unfolding Uint16_def PutUint16_def
  apply simp
  apply (rule bit_word_eqI)
  apply (auto simp add: bit_simps)
  done

lemma IndexByte_None: "c \<notin> set b \<Longrightarrow> IndexByte b c = None"
  by (induction b) auto

lemma IndexByte_Some: "c \<in> set b \<Longrightarrow> IndexByte b c = Some (length (takeWhile (\<lambda>x. x \<noteq> c) b))"
  by (induction b) auto

lemma ReadString_eq:
  "ReadString b c =
     (if c \<in> set b
      then ((string_of_bytes (takeWhile (\<lambda>x. x \<noteq> c) b @ [c]), None),
            tl (dropWhile (\<lambda>x. x \<noteq> c) b))
      else ((string_of_bytes b, Some EOF), []))"
proof (cases "c \<in> set b")
  case True
  have "take (Suc (length (takeWhile (\<lambda>x. x \<noteq> c) b))) b = takeWhile (\<lambda>x. x \<noteq> c) b @ [c]"
    using True by (induction b) auto
  moreover have "drop (Suc (length (takeWhile (\<lambda>x. x \<noteq> c) b))) b = tl (dropWhile (\<lambda>x. x \<noteq> c) b)"
    using True by (induction b) auto
  ultimately show ?thesis
    using True by (simp add: ReadString_def IndexByte_Some)
next
  case False
  then show ?thesis
    by (simp add: ReadString_def IndexByte_None)
qed

section \<open>What the encoders return\<close>

lemmas buffer_defs = new_Buffer_def NewBuffer_def Bytes_def binary_Write_def WriteString_def
  WriteByte_def Write_def Errorf_def

lemmas opcode_defs = ReadRequestPacketOpcode_def WriteRequestPacketOpcode_def
  DataPacketOpcode_def AckPacketOpcode_def ErrorPacketOpcode_def

lemma ReadRequestPacket_Encode_eq:
  "ReadRequestPacket_Encode r =
     Inr (PutUint16 1 @ bytes_of_string (ReadRequestPacket.Filename r) @ [0] @
          bytes_of_string (ReadRequestPacket.Mode r) @ [0])"
  by (simp add: ReadRequestPacket_Encode_def buffer_defs opcode_defs)

lemma WriteRequestPacket_Encode_eq:
  "WriteRequestPacket_Encode w =
     Inr (PutUint16 2 @ bytes_of_string (WriteRequestPacket.Filename w) @ [0] @
          bytes_of_string (WriteRequestPacket.Mode w) @ [0])"
  by (simp add: WriteRequestPacket_Encode_def buffer_defs opcode_defs)

lemma DataPacket_Encode_eq:
  "DataPacket_Encode d = Inr (PutUint16 3 @ PutUint16 (DataPacket.BlockNumber d) @ Data d)"
  by (simp add: DataPacket_Encode_def buffer_defs opcode_defs)

lemma AckPacket_Encode_eq:
  "AckPacket_Encode a = Inr (PutUint16 4 @ PutUint16 (AckPacket.BlockNumber a))"
  by (simp add: AckPacket_Encode_def buffer_defs opcode_defs)

lemma ErrorPacket_Encode_eq:
  "ErrorPacket_Encode e =
     (if ErrorCode e > 7 then Inl (errorString ''Invalid Error Code'')
      else Inr (PutUint16 5 @ PutUint16 (ErrorCode e) @ bytes_of_string (ErrorMessage e) @ [0]))"
  by (simp add: ErrorPacket_Encode_def buffer_defs opcode_defs)

lemma PutUint16_opcode:
  "PutUint16 1 = [0, 1]" "PutUint16 2 = [0, 2]" "PutUint16 3 = [0, 3]"
  "PutUint16 4 = [0, 4]" "PutUint16 5 = [0, 5]"
  by (simp_all add: PutUint16_def drop_bit_eq_div)

text \<open>
  C9. For every filename \<open>f\<close> and mode \<open>m\<close>, encoding a ReadRequest succeeds with exactly
  the bytes \<open>00 01\<close>, the bytes of \<open>f\<close>, \<open>00\<close>, the bytes of \<open>m\<close>, \<open>00\<close>; a WriteRequest
  likewise with \<open>00 02\<close>. The ReadRequest for "./testfile" in mode "octet" encodes to
  the 19 bytes \<open>00 01 2E 2F 74 65 73 74 66 69 6C 65 00 6F 63 74 65 74 00\<close>.
\<close>

theorem Encode_request_layout:
  "ReadRequestPacket_Encode \<lparr>ReadRequestPacket.Filename = f, ReadRequestPacket.Mode = m\<rparr> =
     Inr ([0, 1] @ bytes_of_string f @ [0] @ bytes_of_string m @ [0])
   \<and> WriteRequestPacket_Encode \<lparr>WriteRequestPacket.Filename = f, WriteRequestPacket.Mode = m\<rparr> =
     Inr ([0, 2] @ bytes_of_string f @ [0] @ bytes_of_string m @ [0])
   \<and> Encode (RRQ \<lparr>ReadRequestPacket.Filename = ''./testfile'', ReadRequestPacket.Mode = ''octet''\<rparr>) =
     Inr [0x00, 0x01, 0x2E, 0x2F, 0x74, 0x65, 0x73, 0x74, 0x66, 0x69, 0x6C, 0x65, 0x00,
          0x6F, 0x63, 0x74, 0x65, 0x74, 0x00]"
  by (simp add: ReadRequestPacket_Encode_eq WriteRequestPacket_Encode_eq PutUint16_opcode
      bytes_of_string_def byte_of_char_def)

text \<open>
  C10. Encoding a ReadRequest, a WriteRequest, a Data or an Ack packet returns bytes and
  never an error, whatever the fields hold: the length-mismatch and write-failure branches
  of these four encoders cannot be taken. An Error packet is the only one whose encoding
  can fail.
\<close>

theorem Encode_only_Error_fails:
  "(\<exists>bs. Encode (RRQ r) = Inr bs) \<and> (\<exists>bs. Encode (WRQ w) = Inr bs)
   \<and> (\<exists>bs. Encode (DATA d) = Inr bs) \<and> (\<exists>bs. Encode (ACK a) = Inr bs)
   \<and> (\<exists>e err. Encode (ERROR e) = Inl err)"
proof -
  have "Encode (ERROR \<lparr>ErrorCode = 8, ErrorMessage = []\<rparr>) = Inl (errorString ''Invalid Error Code'')"
    by (simp add: ErrorPacket_Encode_eq)
  then have "\<exists>e err. Encode (ERROR e) = Inl err"
    by blast
  then show ?thesis
    by (simp add: ReadRequestPacket_Encode_eq WriteRequestPacket_Encode_eq
        DataPacket_Encode_eq AckPacket_Encode_eq)
qed

section \<open>The error mapping\<close>

text \<open>
  C6. \<open>ErrorToPacket\<close> returns an Error packet for every error value: the seven classified
  kinds FileNotFound, AccessViolation, DiskFull, IllegalOperation, UnknownTransferID,
  FileExists and NoSuchUser get the wire codes 1 to 7 in this order, with the kind's
  formatted message; any other error value gets code 0 and its own message, unchanged.
\<close>

theorem ErrorToPacket_total:
  "ErrorToPacket (Some (ErrorFileNotFound f)) =
     Some \<lparr>ErrorCode = 1, ErrorMessage = ''Error File Not Found - '' @ f\<rparr>
   \<and> ErrorToPacket (Some ErrorAccessViolation) =
     Some \<lparr>ErrorCode = 2, ErrorMessage = ''Error Access Violation''\<rparr>
   \<and> ErrorToPacket (Some ErrorDiskFull) =
     Some \<lparr>ErrorCode = 3, ErrorMessage = ''Error Disk Full''\<rparr>
   \<and> ErrorToPacket (Some (ErrorIllegalOperation m)) =
     Some \<lparr>ErrorCode = 4, ErrorMessage = ''Error Illegal Operation -  '' @ m\<rparr>
   \<and> ErrorToPacket (Some (ErrorUnknownTransferID t)) =
     Some \<lparr>ErrorCode = 5, ErrorMessage = ''Error Unknown Transfer ID - '' @ t\<rparr>
   \<and> ErrorToPacket (Some (ErrorFileExists f')) =
     Some \<lparr>ErrorCode = 6, ErrorMessage = ''Error File Exists: '' @ f'\<rparr>
   \<and> ErrorToPacket (Some (ErrorNoSuchUser u)) =
     Some \<lparr>ErrorCode = 7, ErrorMessage = ''Error No Such User: '' @ u\<rparr>
   \<and> ErrorToPacket (Some (errorString s)) = Some \<lparr>ErrorCode = 0, ErrorMessage = s\<rparr>
   \<and> ErrorToPacket (Some EOF) = Some \<lparr>ErrorCode = 0, ErrorMessage = ''EOF''\<rparr>
   \<and> (\<exists>p. ErrorToPacket (Some e) = Some p \<and> ErrorCode p \<le> 7 \<and> ErrorMessage p = Error e)"
  by (cases e) (simp_all add: ErrorToPacket_def)

section \<open>What the decoders return\<close>

lemma ReadString_NUL:
  "ReadString b 0 =
     (if 0 \<in> set b then ((string_of_bytes (cstring b) @ [CHR 0x00], None), after_cstring b)
      else ((string_of_bytes b, Some EOF), []))"
  by (simp add: ReadString_eq cstring_def after_cstring_def string_of_bytes_def)

lemma decodeRequest_eq:
  "decodeRequest b =
     (if length b < 6
      then Some (Inl (ErrorIllegalOperation ''RRQ not long enough''))
      else if 0 \<notin> set (drop 2 b)
      then Some (Inl (ErrorIllegalOperation ''Non 0x0 terminated Filename''))
      else if cstring (drop 2 b) = []
      then Some (Inl (ErrorIllegalOperation ''Blank Filename''))
      else if 0 \<notin> set (after_cstring (drop 2 b))
      then Some (Inl (ErrorIllegalOperation ''Non 0x0 terminated Mode''))
      else if cstring (after_cstring (drop 2 b)) = []
      then Some (Inl (ErrorIllegalOperation ''Blank Mode''))
      else Some (Inr (string_of_bytes (cstring (drop 2 b)),
                      string_of_bytes (cstring (after_cstring (drop 2 b))))))"
  by (simp add: decodeRequest_def slice_from_def slice_to_def NewBuffer_def ReadString_NUL
      Suc_le_eq less_Suc_eq_le)

lemma Uint16_Cons: "Uint16 (hi # lo # rest) = Some (ucast lo OR push_bit 8 (ucast hi))"
  by (simp add: Uint16_def)

lemma Uint16_eq_Some:
  "Uint16 b = Some v \<longleftrightarrow> (\<exists>rest. b = PutUint16 v @ rest)"
proof
  assume a: "Uint16 b = Some v"
  then obtain hi lo rest where b: "b = hi # lo # rest"
    by (cases b; cases "tl b") (auto simp add: Uint16_def)
  with a have v: "v = ucast lo OR push_bit 8 (ucast hi)"
    by (simp add: Uint16_Cons)
  have "ucast (drop_bit 8 v) = hi"
    unfolding v by (rule bit_word_eqI) (auto simp add: bit_simps dest: bit_imp_le_length)
  moreover have "ucast v = lo"
    unfolding v by (rule bit_word_eqI) (auto simp add: bit_simps)
  ultimately show "\<exists>rest. b = PutUint16 v @ rest"
    using b by (simp add: PutUint16_def)
next
  assume "\<exists>rest. b = PutUint16 v @ rest"
  then show "Uint16 b = Some v"
    by (auto simp add: Uint16_PutUint16)
qed

lemma length_ge_2_Cons: "2 \<le> length b \<Longrightarrow> \<exists>hi lo rest. b = hi # lo # rest"
  by (cases b; cases "tl b") auto

lemma Uint16_append: "2 \<le> length b \<Longrightarrow> Uint16 (b @ s) = Uint16 b"
  by (auto simp add: Uint16_Cons dest: length_ge_2_Cons)

lemma Uint16_None: "Uint16 b = None \<longleftrightarrow> length b < 2"
  by (simp add: Uint16_def)

lemma Decode_short: "length b < 2 \<Longrightarrow> Decode b = Some (Inl (errorString ''No data in packet''))"
  by (simp add: Decode_def Errorf_def)

lemma Decode_opcode:
  "Uint16 b = Some opcode \<Longrightarrow>
   Decode b =
     (if opcode = 1 then map_option (map_sum id RRQ) (decodeReadRequestPacket b)
      else if opcode = 2 then map_option (map_sum id WRQ) (decodeWriteRequestPacket b)
      else if opcode = 3 then map_option (map_sum id DATA) (decodeDataPacket b)
      else if opcode = 4 then map_option (map_sum id ACK) (decodeAckPacket b)
      else if opcode = 5 then map_option (map_sum id ERROR) (decodeErrorPacket b)
      else Some (Inl (ErrorIllegalOperation
             (''An illegal operation was attempted: Unknown Opcode - '' @ Sprintf_d (unat opcode)))))"
proof -
  assume a: "Uint16 b = Some opcode"
  then have "\<not> length b < 2"
    by (auto simp add: Uint16_def)
  with a show ?thesis
    by (simp add: Decode_def opcode_defs)
qed

lemma map_option_map_sum_eq_Inr:
  "map_option (map_sum id f) x = Some (Inr y) \<longleftrightarrow> (\<exists>z. x = Some (Inr z) \<and> f z = y)"
proof (cases x)
  case None
  then show ?thesis by simp
next
  case (Some s)
  then show ?thesis by (cases s) simp_all
qed

lemma decodeReadRequestPacket_eq_Inr:
  "decodeReadRequestPacket b = Some (Inr r) \<longleftrightarrow>
     decodeRequest b = Some (Inr (ReadRequestPacket.Filename r, ReadRequestPacket.Mode r))"
  by (cases "decodeRequest b") (auto simp add: decodeReadRequestPacket_def split: sum.splits)

lemma decodeWriteRequestPacket_eq_Inr:
  "decodeWriteRequestPacket b = Some (Inr w) \<longleftrightarrow>
     decodeRequest b = Some (Inr (WriteRequestPacket.Filename w, WriteRequestPacket.Mode w))"
  by (cases "decodeRequest b") (auto simp add: decodeWriteRequestPacket_def split: sum.splits)

lemma Decode_RRQ_iff:
  "Decode b = Some (Inr (RRQ r)) \<longleftrightarrow>
     Uint16 b = Some 1 \<and>
     decodeRequest b = Some (Inr (ReadRequestPacket.Filename r, ReadRequestPacket.Mode r))"
proof (cases "Uint16 b")
  case None
  then have "length b < 2"
    by (simp add: Uint16_None)
  with None show ?thesis
    by (simp add: Decode_short)
next
  case (Some opcode)
  show ?thesis
    unfolding Decode_opcode [OF Some] Some
    by (auto simp add: map_option_map_sum_eq_Inr decodeReadRequestPacket_eq_Inr simp del: map_option_eq_Some)
qed

lemma Decode_WRQ_iff:
  "Decode b = Some (Inr (WRQ w)) \<longleftrightarrow>
     Uint16 b = Some 2 \<and>
     decodeRequest b = Some (Inr (WriteRequestPacket.Filename w, WriteRequestPacket.Mode w))"
proof (cases "Uint16 b")
  case None
  then have "length b < 2"
    by (simp add: Uint16_None)
  with None show ?thesis
    by (simp add: Decode_short)
next
  case (Some opcode)
  show ?thesis
    unfolding Decode_opcode [OF Some] Some
    by (auto simp add: map_option_map_sum_eq_Inr decodeWriteRequestPacket_eq_Inr simp del: map_option_eq_Some)
qed

lemma cstring_append: "0 \<in> set xs \<Longrightarrow> cstring (xs @ ys) = cstring xs"
  by (induction xs) (auto simp add: cstring_def)

lemma after_cstring_append: "0 \<in> set xs \<Longrightarrow> after_cstring (xs @ ys) = after_cstring xs @ ys"
  by (induction xs) (auto simp add: after_cstring_def)

lemma decodeRequest_append:
  assumes "decodeRequest b = Some (Inr fm)"
  shows "decodeRequest (b @ s) = Some (Inr fm)"
proof -
  let ?r = "drop 2 b"
  from assms have len: "6 \<le> length b" and f0: "0 \<in> set ?r"
    and f1: "cstring ?r \<noteq> []" and m0: "0 \<in> set (after_cstring ?r)"
    and m1: "cstring (after_cstring ?r) \<noteq> []"
    and fm: "fm = (string_of_bytes (cstring ?r), string_of_bytes (cstring (after_cstring ?r)))"
    by (auto simp add: decodeRequest_eq split: if_splits)
  have d: "drop 2 (b @ s) = ?r @ s"
    using len by simp
  show ?thesis
    using len f0 f1 m0 m1 by (simp add: decodeRequest_eq d cstring_append after_cstring_append fm)
qed

lemma cstring_NUL: "0 \<notin> set xs \<Longrightarrow> cstring (xs @ 0 # ys) = xs"
  by (induction xs) (auto simp add: cstring_def)

lemma after_cstring_NUL: "0 \<notin> set xs \<Longrightarrow> after_cstring (xs @ 0 # ys) = ys"
  by (induction xs) (auto simp add: after_cstring_def)

lemma length_PutUint16 [simp]: "length (PutUint16 v) = 2"
  by (simp add: PutUint16_def)

lemma decodeRequest_encoded:
  assumes "f \<noteq> []" and "m \<noteq> []" and "CHR 0x00 \<notin> set f" and "CHR 0x00 \<notin> set m"
  shows "decodeRequest (PutUint16 v @ bytes_of_string f @ 0 # bytes_of_string m @ [0]) =
     Some (Inr (f, m))"
proof -
  have "cstring (bytes_of_string m @ [0]) = bytes_of_string m"
    using assms(4) cstring_NUL [of "bytes_of_string m" "[]"] by simp
  moreover have "bytes_of_string f \<noteq> []" and "bytes_of_string m \<noteq> []"
    using assms(1,2) by (simp_all add: bytes_of_string_def)
  moreover have "2 \<le> length f + length m"
    using assms(1,2) by (cases f; cases m) simp_all
  ultimately show ?thesis
    using assms(3,4) by (simp add: decodeRequest_eq cstring_NUL after_cstring_NUL)
qed

lemma decodeErrorPacket_eq:
  "decodeErrorPacket b =
     (if length b < 5
      then Some (Inl (ErrorIllegalOperation ''Invalid Error packet length - must be 5 bytes''))
      else case Uint16 (drop 2 b) of
        None \<Rightarrow> None
      | Some c \<Rightarrow>
          if 8 < c
          then Some (Inl (ErrorIllegalOperation ''Invalid error code - must be between 0 and 7''))
          else if 0 \<notin> set b
          then Some (Inl (ErrorIllegalOperation ''Error message not 0x0 terminated''))
          else Some (Inr \<lparr>ErrorCode = c, ErrorMessage = string_of_bytes (cstring b) @ [CHR 0x00]\<rparr>))"
  by (simp add: decodeErrorPacket_def slice_from_def NewBuffer_def ReadString_NUL
      split: option.splits)

lemma opcode_5_starts_with_NUL:
  assumes "Uint16 b = Some 5"
  shows "\<exists>rest. b = 0 # 5 # rest"
  using assms by (auto simp add: Uint16_eq_Some PutUint16_opcode)

lemma Decode_Error_eq:
  assumes "Uint16 b = Some 5" and "5 \<le> length b" and "Uint16 (drop 2 b) = Some c"
  shows "Decode b =
     (if 8 < c
      then Some (Inl (ErrorIllegalOperation ''Invalid error code - must be between 0 and 7''))
      else Some (Inr (ERROR \<lparr>ErrorCode = c, ErrorMessage = [CHR 0x00]\<rparr>)))"
proof -
  from assms(1) obtain rest where b: "b = 0 # 5 # rest"
    using opcode_5_starts_with_NUL by blast
  then have "0 \<in> set b" and "cstring b = []"
    by (simp_all add: cstring_def)
  with assms(2,3) have "decodeErrorPacket b =
     (if 8 < c
      then Some (Inl (ErrorIllegalOperation ''Invalid error code - must be between 0 and 7''))
      else Some (Inr \<lparr>ErrorCode = c, ErrorMessage = [CHR 0x00]\<rparr>))"
    by (simp add: decodeErrorPacket_eq string_of_bytes_def)
  then show ?thesis
    by (simp add: Decode_opcode [OF assms(1)])
qed

section \<open>Request packets\<close>

text \<open>
  C7. Decoding a request fails, with an Illegal Operation error, in exactly these cases:
  the buffer is shorter than 6 bytes, the bytes after the opcode hold no \<open>0x00\<close> to end
  the filename, the filename before its terminator is empty, the bytes after the
  filename's terminator hold no \<open>0x00\<close> to end the mode, or the mode before its
  terminator is empty. In every other case it succeeds and returns the two
  NUL-terminated strings after the opcode, without their terminators, as filename and
  mode.
\<close>

theorem decodeRequest_rejects_exactly:
  "(length b < 6 \<or> 0 \<notin> set (drop 2 b) \<or> cstring (drop 2 b) = []
      \<or> 0 \<notin> set (after_cstring (drop 2 b)) \<or> cstring (after_cstring (drop 2 b)) = []
    \<longrightarrow> (\<exists>msg. decodeRequest b = Some (Inl (ErrorIllegalOperation msg))))
   \<and> (\<not> (length b < 6 \<or> 0 \<notin> set (drop 2 b) \<or> cstring (drop 2 b) = []
      \<or> 0 \<notin> set (after_cstring (drop 2 b)) \<or> cstring (after_cstring (drop 2 b)) = [])
    \<longrightarrow> decodeRequest b =
          Some (Inr (string_of_bytes (cstring (drop 2 b)),
                     string_of_bytes (cstring (after_cstring (drop 2 b))))))"
  by (simp add: decodeRequest_eq)

theorem decodeRequest_rejects_exactly_witness:
  "decodeRequest [0, 1, 0x61, 0, 0x62, 0] = Some (Inr (''a'', ''b''))
   \<and> (\<exists>msg. decodeRequest [0, 1, 0, 0x62, 0, 0] = Some (Inl (ErrorIllegalOperation msg)))
   \<and> (\<exists>msg. decodeRequest [0, 1, 0x61, 0x62, 0x63, 0x64] = Some (Inl (ErrorIllegalOperation msg)))"
proof -
  have ok: "\<not> (length [0, 1, 0x61, 0, 0x62, 0 :: byte] < 6
      \<or> 0 \<notin> set (drop 2 [0, 1, 0x61, 0, 0x62, 0 :: byte])
      \<or> cstring (drop 2 [0, 1, 0x61, 0, 0x62, 0]) = []
      \<or> 0 \<notin> set (after_cstring (drop 2 [0, 1, 0x61, 0, 0x62, 0]))
      \<or> cstring (after_cstring (drop 2 [0, 1, 0x61, 0, 0x62, 0])) = [])"
    by (simp add: cstring_def after_cstring_def)
  have blank: "cstring (drop 2 [0, 1, 0, 0x62, 0, 0]) = []"
    by (simp add: cstring_def)
  have unterminated: "0 \<notin> set (drop 2 [0, 1, 0x61, 0x62, 0x63, 0x64 :: byte])"
    by simp
  have "string_of_bytes (cstring (drop 2 [0, 1, 0x61, 0, 0x62, 0])) = ''a''"
    and "string_of_bytes (cstring (after_cstring (drop 2 [0, 1, 0x61, 0, 0x62, 0]))) = ''b''"
    by code_simp+
  then show ?thesis
    using ok blank unterminated
      decodeRequest_rejects_exactly [of "[0, 1, 0x61, 0, 0x62, 0]"]
      decodeRequest_rejects_exactly [of "[0, 1, 0, 0x62, 0, 0]"]
      decodeRequest_rejects_exactly [of "[0, 1, 0x61, 0x62, 0x63, 0x64]"]
    by simp
qed

text \<open>
  C8. Request decoding ignores trailing bytes: when a buffer \<open>B\<close> decodes to a ReadRequest
  or a WriteRequest, so does \<open>B\<close> followed by any bytes \<open>S\<close>, with the same filename and
  mode.
\<close>

theorem Decode_request_ignores_trailing_bytes:
  assumes "Decode B = Some (Inr p)" and "(\<exists>r. p = RRQ r) \<or> (\<exists>w. p = WRQ w)"
  shows "Decode (B @ S) = Some (Inr p)"
proof -
  from assms(1) have len: "2 \<le> length B"
    by (cases "length B < 2") (simp_all add: Decode_short)
  from assms(2) show ?thesis
  proof
    assume "\<exists>r. p = RRQ r"
    then obtain r where p: "p = RRQ r" ..
    with assms(1) show ?thesis
      using len by (simp add: Decode_RRQ_iff Uint16_append decodeRequest_append)
  next
    assume "\<exists>w. p = WRQ w"
    then obtain w where p: "p = WRQ w" ..
    with assms(1) show ?thesis
      using len by (simp add: Decode_WRQ_iff Uint16_append decodeRequest_append)
  qed
qed

theorem Decode_request_ignores_trailing_bytes_witness:
  "Decode [0, 1, 0x61, 0, 0x62, 0] =
     Some (Inr (RRQ \<lparr>ReadRequestPacket.Filename = ''a'', ReadRequestPacket.Mode = ''b''\<rparr>))
   \<and> Decode ([0, 1, 0x61, 0, 0x62, 0] @ [7, 0, 9]) =
     Some (Inr (RRQ \<lparr>ReadRequestPacket.Filename = ''a'', ReadRequestPacket.Mode = ''b''\<rparr>))
   \<and> Decode [0, 2, 0x61, 0, 0x62, 0] =
     Some (Inr (WRQ \<lparr>WriteRequestPacket.Filename = ''a'', WriteRequestPacket.Mode = ''b''\<rparr>))
   \<and> Decode ([0, 2, 0x61, 0, 0x62, 0] @ [7, 0, 9]) =
     Some (Inr (WRQ \<lparr>WriteRequestPacket.Filename = ''a'', WriteRequestPacket.Mode = ''b''\<rparr>))"
proof -
  have r: "Decode [0, 1, 0x61, 0, 0x62, 0] =
     Some (Inr (RRQ \<lparr>ReadRequestPacket.Filename = ''a'', ReadRequestPacket.Mode = ''b''\<rparr>))"
    by code_simp
  have w: "Decode [0, 2, 0x61, 0, 0x62, 0] =
     Some (Inr (WRQ \<lparr>WriteRequestPacket.Filename = ''a'', WriteRequestPacket.Mode = ''b''\<rparr>))"
    by code_simp
  show ?thesis
    using r w
      Decode_request_ignores_trailing_bytes [OF r, of "[7, 0, 9]"]
      Decode_request_ignores_trailing_bytes [OF w, of "[7, 0, 9]"]
    by simp
qed

section \<open>Error packets\<close>

text \<open>
  C4. Encoding an Error packet fails exactly when its ErrorCode is above 7. Decoding a
  buffer of at least 5 bytes with opcode 5 succeeds for every ErrorCode up to 8 and fails,
  with an Illegal Operation error, for every ErrorCode above 8. So a packet with
  ErrorCode 8 decodes and cannot be encoded.
\<close>

theorem ErrorCode_accepted_ranges:
  "((\<exists>err. ErrorPacket_Encode e = Inl err) \<longleftrightarrow> 7 < ErrorCode e)
   \<and> (\<forall>b c. Uint16 b = Some ErrorPacketOpcode \<and> 5 \<le> length b \<and> Uint16 (drop 2 b) = Some c \<longrightarrow>
         (if c \<le> 8
          then \<exists>m. Decode b = Some (Inr (ERROR \<lparr>ErrorCode = c, ErrorMessage = m\<rparr>))
          else \<exists>msg. Decode b = Some (Inl (ErrorIllegalOperation msg))))
   \<and> (\<exists>b m. Decode b = Some (Inr (ERROR \<lparr>ErrorCode = 8, ErrorMessage = m\<rparr>))
         \<and> (\<exists>err. Encode (ERROR \<lparr>ErrorCode = 8, ErrorMessage = m\<rparr>) = Inl err))"
proof (intro conjI allI impI)
  show "(\<exists>err. ErrorPacket_Encode e = Inl err) \<longleftrightarrow> 7 < ErrorCode e"
    by (simp add: ErrorPacket_Encode_eq)
next
  fix b c
  assume "Uint16 b = Some ErrorPacketOpcode \<and> 5 \<le> length b \<and> Uint16 (drop 2 b) = Some c"
  then show "if c \<le> 8
          then \<exists>m. Decode b = Some (Inr (ERROR \<lparr>ErrorCode = c, ErrorMessage = m\<rparr>))
          else \<exists>msg. Decode b = Some (Inl (ErrorIllegalOperation msg))"
    by (auto simp add: ErrorPacketOpcode_def Decode_Error_eq)
next
  have "Decode [0, 5, 0, 8, 0] = Some (Inr (ERROR \<lparr>ErrorCode = 8, ErrorMessage = [CHR 0x00]\<rparr>))"
    by code_simp
  moreover have "Encode (ERROR \<lparr>ErrorCode = 8, ErrorMessage = [CHR 0x00]\<rparr>) =
      Inl (errorString ''Invalid Error Code'')"
    by (simp add: ErrorPacket_Encode_eq)
  ultimately show "\<exists>b m. Decode b = Some (Inr (ERROR \<lparr>ErrorCode = 8, ErrorMessage = m\<rparr>))
         \<and> (\<exists>err. Encode (ERROR \<lparr>ErrorCode = 8, ErrorMessage = m\<rparr>) = Inl err)"
    by blast
qed

theorem ErrorCode_accepted_ranges_witness:
  "(\<exists>err. ErrorPacket_Encode \<lparr>ErrorCode = 8, ErrorMessage = ''Test''\<rparr> = Inl err)
   \<and> (\<exists>m. Decode [0, 5, 0, 8, 0x54, 0] = Some (Inr (ERROR \<lparr>ErrorCode = 8, ErrorMessage = m\<rparr>)))
   \<and> (\<exists>msg. Decode [0, 5, 0, 9, 0x54, 0] = Some (Inl (ErrorIllegalOperation msg)))"
proof -
  note t = ErrorCode_accepted_ranges [of "\<lparr>ErrorCode = 8, ErrorMessage = ''Test''\<rparr>"]
  have h8: "Uint16 [0, 5, 0, 8, 0x54, 0] = Some ErrorPacketOpcode \<and> 5 \<le> length [0, 5, 0, 8, 0x54, 0 :: byte]
      \<and> Uint16 (drop 2 [0, 5, 0, 8, 0x54, 0]) = Some 8"
    by (simp add: Uint16_Cons ErrorPacketOpcode_def)
  have h9: "Uint16 [0, 5, 0, 9, 0x54, 0] = Some ErrorPacketOpcode \<and> 5 \<le> length [0, 5, 0, 9, 0x54, 0 :: byte]
      \<and> Uint16 (drop 2 [0, 5, 0, 9, 0x54, 0]) = Some 9"
    by (simp add: Uint16_Cons ErrorPacketOpcode_def)
  from t have e: "\<exists>err. ErrorPacket_Encode \<lparr>ErrorCode = 8, ErrorMessage = ''Test''\<rparr> = Inl err"
    by simp
  from t h8 have d8: "if (8 :: uint16) \<le> 8
      then \<exists>m. Decode [0, 5, 0, 8, 0x54, 0] = Some (Inr (ERROR \<lparr>ErrorCode = 8, ErrorMessage = m\<rparr>))
      else \<exists>msg. Decode [0, 5, 0, 8, 0x54, 0] = Some (Inl (ErrorIllegalOperation msg))"
    by blast
  from t h9 have d9: "if (9 :: uint16) \<le> 8
      then \<exists>m. Decode [0, 5, 0, 9, 0x54, 0] = Some (Inr (ERROR \<lparr>ErrorCode = 9, ErrorMessage = m\<rparr>))
      else \<exists>msg. Decode [0, 5, 0, 9, 0x54, 0] = Some (Inl (ErrorIllegalOperation msg))"
    by blast
  from e d8 d9 show ?thesis
    by simp
qed

text \<open>
  C2. \<open>decodeErrorPacket\<close> reads the message from the start of the buffer, not from byte
  offset 4, and keeps the terminator: the first byte of an Error packet is the high byte
  \<open>0x00\<close> of the opcode, so the message of the 9-byte buffer
  \<open>00 05 00 01 54 65 73 74 00\<close> is decoded as the one-byte string \<open>0x00\<close> and not as
  "Test".
\<close>

theorem Decode_Error_message_is_NUL:
  "Decode [0x00, 0x05, 0x00, 0x01, 0x54, 0x65, 0x73, 0x74, 0x00] =
     Some (Inr (ERROR \<lparr>ErrorCode = 1, ErrorMessage = [CHR 0x00]\<rparr>))"
  by code_simp

text \<open>
  C5. For the same reason the check for a missing terminator never fires on an Error
  packet: the 8-byte buffer \<open>00 05 00 01 54 65 73 74\<close>, whose message has no terminator,
  is decoded successfully.
\<close>

theorem Decode_unterminated_Error_accepted:
  "Decode [0x00, 0x05, 0x00, 0x01, 0x54, 0x65, 0x73, 0x74] =
     Some (Inr (ERROR \<lparr>ErrorCode = 1, ErrorMessage = [CHR 0x00]\<rparr>))"
  by code_simp

section \<open>Buffers without an opcode\<close>

text \<open>
  C3. \<open>Decode\<close> rejects a buffer of length 0 or 1 with the plain error of \<open>fmt.Errorf\<close>,
  not with an error of the Illegal Operation kind, so \<open>ErrorToPacket\<close> maps it to wire
  code 0.
\<close>

theorem Decode_short_buffer_unclassified:
  "Decode [] = Some (Inl (errorString ''No data in packet''))
   \<and> Decode [0x05] = Some (Inl (errorString ''No data in packet''))
   \<and> ErrorToPacket (Some (errorString ''No data in packet'')) =
       Some \<lparr>ErrorCode = 0, ErrorMessage = ''No data in packet''\<rparr>"
  by code_simp

section \<open>Round trip\<close>

text \<open>
  Decoding what the encoder produced gives the packet back for a request with non-empty,
  NUL-free filename and mode, for every Data packet and for every Ack packet. An Error
  packet comes back with its code and the message \<open>0x00\<close>.
\<close>

lemma roundtrip_ReadRequest:
  assumes "ReadRequestPacket.Filename r \<noteq> []" and "ReadRequestPacket.Mode r \<noteq> []"
    and "CHR 0x00 \<notin> set (ReadRequestPacket.Filename r)"
    and "CHR 0x00 \<notin> set (ReadRequestPacket.Mode r)"
  shows "\<exists>bs. Encode (RRQ r) = Inr bs \<and> Decode bs = Some (Inr (RRQ r))"
  using assms
  by (simp add: ReadRequestPacket_Encode_eq Decode_RRQ_iff Uint16_PutUint16 decodeRequest_encoded)

lemma roundtrip_WriteRequest:
  assumes "WriteRequestPacket.Filename w \<noteq> []" and "WriteRequestPacket.Mode w \<noteq> []"
    and "CHR 0x00 \<notin> set (WriteRequestPacket.Filename w)"
    and "CHR 0x00 \<notin> set (WriteRequestPacket.Mode w)"
  shows "\<exists>bs. Encode (WRQ w) = Inr bs \<and> Decode bs = Some (Inr (WRQ w))"
  using assms
  by (simp add: WriteRequestPacket_Encode_eq Decode_WRQ_iff Uint16_PutUint16 decodeRequest_encoded)

lemma roundtrip_Data:
  "\<exists>bs. Encode (DATA d) = Inr bs \<and> Decode bs = Some (Inr (DATA d))"
proof -
  let ?bs = "PutUint16 3 @ PutUint16 (DataPacket.BlockNumber d) @ Data d"
  have "decodeDataPacket ?bs = Some (Inr d)"
    by (simp add: decodeDataPacket_def slice_from_def Uint16_PutUint16)
  moreover have "Uint16 ?bs = Some 3"
    by (rule Uint16_PutUint16)
  ultimately show ?thesis
    by (simp add: DataPacket_Encode_eq Decode_opcode)
qed

lemma roundtrip_Ack:
  "\<exists>bs. Encode (ACK a) = Inr bs \<and> Decode bs = Some (Inr (ACK a))"
proof -
  let ?bs = "PutUint16 4 @ PutUint16 (AckPacket.BlockNumber a)"
  have "decodeAckPacket ?bs = Some (Inr a)"
    using Uint16_PutUint16 [of "AckPacket.BlockNumber a" "[]"]
    by (simp add: decodeAckPacket_def slice_from_def)
  moreover have "Uint16 ?bs = Some 4"
    by (rule Uint16_PutUint16)
  ultimately show ?thesis
    by (simp add: AckPacket_Encode_eq Decode_opcode)
qed

lemma roundtrip_Error_loses_message:
  assumes "ErrorCode e \<le> 7"
  shows "\<exists>bs. Encode (ERROR e) = Inr bs
     \<and> Decode bs = Some (Inr (ERROR \<lparr>ErrorCode = ErrorCode e, ErrorMessage = [CHR 0x00]\<rparr>))"
proof -
  let ?bs = "PutUint16 5 @ PutUint16 (ErrorCode e) @ bytes_of_string (ErrorMessage e) @ [0]"
  have "Uint16 ?bs = Some 5"
    by (rule Uint16_PutUint16)
  moreover have "5 \<le> length ?bs"
    by simp
  moreover have "Uint16 (drop 2 ?bs) = Some (ErrorCode e)"
    by (simp add: Uint16_PutUint16)
  moreover have "\<not> 8 < ErrorCode e"
    using assms by (simp add: word_le_nat_alt word_less_nat_alt)
  ultimately have "Decode ?bs =
      Some (Inr (ERROR \<lparr>ErrorCode = ErrorCode e, ErrorMessage = [CHR 0x00]\<rparr>))"
    by (simp add: Decode_Error_eq)
  moreover have "\<not> 7 < ErrorCode e"
    using assms by (simp add: word_le_nat_alt word_less_nat_alt)
  ultimately show ?thesis
    by (simp add: ErrorPacket_Encode_eq)
qed

text \<open>
  C1. The round trip fails for the Error variant: the Error packet with ErrorCode 1 and
  message "Test" encodes to \<open>00 05 00 01 54 65 73 74 00\<close>, and decoding these bytes does
  not give the packet back.
\<close>

theorem roundtrip_fails_for_Error:
  "Encode (ERROR \<lparr>ErrorCode = 1, ErrorMessage = ''Test''\<rparr>) =
     Inr [0x00, 0x05, 0x00, 0x01, 0x54, 0x65, 0x73, 0x74, 0x00]
   \<and> Decode [0x00, 0x05, 0x00, 0x01, 0x54, 0x65, 0x73, 0x74, 0x00] \<noteq>
     Some (Inr (ERROR \<lparr>ErrorCode = 1, ErrorMessage = ''Test''\<rparr>))"
  by code_simp

end
